theory Spec2Isabelle
  imports Main "HOL-Library.AList" "HOL-Library.Word"
begin

section \<open>Values\<close>

text \<open>
  The handlers receive parsed JSON and test it with JavaScript's truthiness. The numbers
  of the model are the whole numbers from \<open>- 2\<^sup>5\<^sup>3\<close> to \<open>2\<^sup>5\<^sup>3 - 1\<close>, the signed
  numbers of 54 bits: a JavaScript number holds each of them exactly and prints its
  decimal digits. The handlers only ask a number whether it is zero and, in
  \<^verbatim>\<open>server.js\<close>, print an id. A \<^typ>\<open>char\<close> stands for one code unit below 256.
\<close>

type_synonym whole = "54 word"

datatype json =
    JNull
  | JBool bool
  | JNum whole
  | JStr string
  | JArr "json list"
  | JObj "(string \<times> json) list"

text \<open>\<^verbatim>\<open>!!v\<close> for a JSON value.\<close>

fun truthy :: "json \<Rightarrow> bool" where
  "truthy JNull = False"
| "truthy (JBool b) = b"
| "truthy (JNum n) = (n \<noteq> 0)"
| "truthy (JStr s) = (s \<noteq> [])"
| "truthy (JArr xs) = True"
| "truthy (JObj kvs) = True"

text \<open>\<^verbatim>\<open>!v\<close> for a property that may be \<^verbatim>\<open>undefined\<close> (\<open>None\<close>).\<close>

definition falsy :: "json option \<Rightarrow> bool" where
  "falsy v = (case v of None \<Rightarrow> True | Some j \<Rightarrow> \<not> truthy j)"

text \<open>
  \<^verbatim>\<open>req.body\<close> after \<^verbatim>\<open>express.json()\<close>: the parser in its default strict mode hands
  the handler an object or an array (the empty object when the request has no body). An
  object is the list of its properties, each name once.
\<close>

datatype req_body = Body_obj "(string \<times> json) list" | Body_arr "json list"

text \<open>
  Reading one of the properties \<^verbatim>\<open>name\<close>, \<^verbatim>\<open>content\<close>, \<^verbatim>\<open>id\<close> of the body; an array
  has none of them.
\<close>

fun body_prop :: "req_body \<Rightarrow> string \<Rightarrow> json option" where
  "body_prop (Body_obj kvs) k = map_of kvs k"
| "body_prop (Body_arr xs) k = None"

fun body_truthy :: "req_body \<Rightarrow> bool" where
  "body_truthy (Body_obj kvs) = True"
| "body_truthy (Body_arr xs) = True"

text \<open>The property \<^verbatim>\<open>k\<close> of a stored value.\<close>

fun doc_field :: "json \<Rightarrow> string \<Rightarrow> json option" where
  "doc_field (JObj kvs) k = map_of kvs k"
| "doc_field v k = None"

subsection \<open>Strings\<close>

text \<open>White space of \<^verbatim>\<open>String.prototype.trim\<close> among the code units below 256.\<close>

definition is_ws :: "char \<Rightarrow> bool" where
  "is_ws c = (c \<in> set [CHR 0x09, CHR 0x0A, CHR 0x0B, CHR 0x0C, CHR 0x0D, CHR 0x20, CHR 0xA0])"

definition trim :: "string \<Rightarrow> string" where
  "trim s = rev (dropWhile is_ws (rev (dropWhile is_ws s)))"

text \<open>\<^verbatim>\<open>s.substr(start, len)\<close> for non-negative arguments.\<close>

definition substr :: "nat \<Rightarrow> nat \<Rightarrow> string \<Rightarrow> string" where
  "substr start len s = take len (drop start s)"

definition digit_char :: "nat \<Rightarrow> char" where
  "digit_char d = ''0123456789'' ! d"

fun dec_nat :: "nat \<Rightarrow> string" where
  "dec_nat n = (if n < 10 then [digit_char n] else dec_nat (n div 10) @ [digit_char (n mod 10)])"

declare dec_nat.simps [simp del]

text \<open>The decimal digits of an integer, with its sign.\<close>

definition dec_int :: "int \<Rightarrow> string" where
  "dec_int i = (if i < 0 then CHR ''-'' # dec_nat (nat (- i)) else dec_nat (nat i))"

text \<open>
  \<^verbatim>\<open>n.toString()\<close> and \<^verbatim>\<open>String(n)\<close> for a number of the model: it is at most
  \<open>2\<^sup>5\<^sup>3\<close> in size, where JavaScript prints the decimal digits of the number itself.
\<close>

definition to_string :: "whole \<Rightarrow> string" where
  "to_string n = dec_int (sint n)"

fun join :: "string \<Rightarrow> string list \<Rightarrow> string" where
  "join sep [] = []"
| "join sep [x] = x"
| "join sep (x # y # ys) = x @ sep @ join sep (y # ys)"

text \<open>\<^verbatim>\<open>String(v)\<close>; an array prints its elements separated by commas, \<^verbatim>\<open>null\<close> as nothing.\<close>

fun js_String :: "json \<Rightarrow> string" where
  "js_String JNull = ''null''"
| "js_String (JBool b) = (if b then ''true'' else ''false'')"
| "js_String (JNum n) = to_string n"
| "js_String (JStr s) = s"
| "js_String (JArr xs) = join '','' (map (\<lambda>x. if x = JNull then [] else js_String x) xs)"
| "js_String (JObj kvs) = ''[object Object]''"

definition js_String_opt :: "json option \<Rightarrow> string" where
  "js_String_opt v = (case v of None \<Rightarrow> ''undefined'' | Some j \<Rightarrow> js_String j)"

section \<open>The document store\<close>

text \<open>
  The store holds the documents at and below one collection, each under its path from the
  collection: a list of (path, data) pairs with \<open>map_of\<close> as \<^verbatim>\<open>get\<close>, \<open>AList.update\<close> as
  \<^verbatim>\<open>set\<close> and \<open>AList.delete\<close> as \<^verbatim>\<open>delete\<close>; \<^verbatim>\<open>delete\<close> of an absent document
  succeeds, \<^verbatim>\<open>update\<close> of an absent document throws. A handler catches what the client
  throws and answers 500; nothing is written then. The store is taken to be available and
  to accept every path and all data that the client accepts.
\<close>

type_synonym doc_path = "string list"

type_synonym 'd store = "(doc_path \<times> 'd) list"

text \<open>\<^verbatim>\<open>s.split(c)\<close> for a separator of one character.\<close>

fun split_on :: "char \<Rightarrow> string \<Rightarrow> string list" where
  "split_on c [] = [[]]"
| "split_on c (x # xs) =
     (if x = c then [] # split_on c xs
      else (case split_on c xs of [] \<Rightarrow> [[x]] | y # ys \<Rightarrow> (x # y) # ys))"

text \<open>\<^verbatim>\<open>s.indexOf('//') >= 0\<close>\<close>

fun has_double_slash :: "string \<Rightarrow> bool" where
  "has_double_slash (x # y # ys) = ((x = CHR ''/'' \<and> y = CHR ''/'') \<or> has_double_slash (y # ys))"
| "has_double_slash xs = False"

text \<open>
  \<^verbatim>\<open>collection.doc(documentPath)\<close> of the Firestore client, for a collection (its own
  path has an odd number of segments, as \<^verbatim>\<open>subjects\<close> and
  \<^verbatim>\<open>users/test-user-12345/subjects\<close> have). The client throws on the empty string and on
  a path with \<^verbatim>\<open>//\<close>; it splits the path at the slashes and drops the empty segments,
  so that a slash in front or at the end does not count; and it throws unless the
  segments end at a document, which is when their number is odd. One segment is a
  document of the collection itself, three or more a document of a collection below it.
  \<open>None\<close> is the throw.
\<close>

definition doc_ref :: "string \<Rightarrow> doc_path option" where
  "doc_ref documentPath =
     (if documentPath = [] \<or> has_double_slash documentPath then None
      else (let segments = filter (\<lambda>segment. segment \<noteq> []) (split_on CHR ''/'' documentPath)
            in if odd (length segments) then Some segments else None))"

text \<open>\<^verbatim>\<open>collection.get()\<close>: the documents of the collection itself.\<close>

definition children :: "'d store \<Rightarrow> 'd list" where
  "children st = map snd (filter (\<lambda>(path, d). length path = 1) st)"

text \<open>
  \<^verbatim>\<open>FieldValue.arrayUnion(x)\<close> adds \<open>x\<close> at the end unless an equal element is stored;
  \<^verbatim>\<open>FieldValue.arrayRemove(x)\<close> removes every element equal to \<open>x\<close>. Two elements are
  equal when all their fields are.
\<close>

definition arrayUnion :: "'a \<Rightarrow> 'a list \<Rightarrow> 'a list" where
  "arrayUnion x xs = (if x \<in> set xs then xs else xs @ [x])"

definition arrayRemove :: "'a \<Rightarrow> 'a list \<Rightarrow> 'a list" where
  "arrayRemove x xs = filter (\<lambda>y. y \<noteq> x) xs"

text \<open>
  What a handler sends: \<^verbatim>\<open>json({ message })\<close>, \<^verbatim>\<open>send(text)\<close>, the JSON of a list of
  documents, of one document or of a file, or \<^verbatim>\<open>send()\<close>; a response is the status
  with it.
\<close>

datatype ('d, 'f) reply =
    Message string
  | Text string
  | Docs "'d list"
  | Doc 'd
  | File_json 'f
  | No_content

type_synonym ('d, 'f) response = "nat \<times> ('d, 'f) reply"

section \<open>Variant 1: the handlers of the collection \<^verbatim>\<open>subjects\<close>\<close>

text \<open>
  The second source file. Every document of the collection is written by these handlers,
  so it has the three fields of \<^verbatim>\<open>newSubject\<close> and its files have the three fields of
  \<^verbatim>\<open>newFile\<close>; a rename may store any truthy value as the name, and a file has the
  name and content its request gave.
\<close>

record file_entry =
  file_id :: string
  file_name :: json
  file_content :: json

record subject =
  subject_id :: string
  subject_name :: json
  files :: "file_entry list"

text \<open>
  What the environment supplies to a request: the id of \<^verbatim>\<open>subjectsCollection.doc()\<close>
  (twenty letters and digits, one segment), \<^verbatim>\<open>Timestamp.now().toMillis()\<close> (a whole
  number of milliseconds, below \<open>2\<^sup>5\<^sup>3\<close> as every time of the clock is) and
  \<^verbatim>\<open>Math.random().toString(36)\<close>.
\<close>

record env =
  new_doc_id :: string
  now_millis :: whole
  random36 :: string

type_synonym result = "subject store \<times> (subject, file_entry) response"

text \<open>\<^verbatim>\<open>GET /api/subjects\<close>\<close>

definition get_subjects :: "subject store \<Rightarrow> result" where
  "get_subjects st = (st, 200, Docs (children st))"

text \<open>\<^verbatim>\<open>POST /api/subjects\<close>: the test is
  \<^verbatim>\<open>!name || typeof name !== 'string' || name.trim() === ''\<close>.\<close>

definition post_subject :: "env \<Rightarrow> req_body \<Rightarrow> subject store \<Rightarrow> result" where
  "post_subject e b st =
     (let name = body_prop b ''name'';
          bad = (st, 400, Message ''Subject name is required.'')
      in if falsy name then bad
         else (case name of
                 Some (JStr s) \<Rightarrow>
                   if trim s = [] then bad
                   else (let newSubject =
                               \<lparr>subject_id = new_doc_id e, subject_name = JStr (trim s), files = []\<rparr>
                         in (AList.update [new_doc_id e] newSubject st, 201, Doc newSubject))
               | _ \<Rightarrow> bad))"

text \<open>\<^verbatim>\<open>PUT /api/subjects/:subjectId\<close>: the test \<^verbatim>\<open>!name\<close>, then
  \<^verbatim>\<open>doc(subjectId).update({ name })\<close>.\<close>

definition put_subject :: "string \<Rightarrow> req_body \<Rightarrow> subject store \<Rightarrow> result" where
  "put_subject subjectId b st =
     (case body_prop b ''name'' of
        None \<Rightarrow> (st, 400, Message ''New name is required.'')
      | Some name \<Rightarrow>
          if \<not> truthy name then (st, 400, Message ''New name is required.'')
          else (case doc_ref subjectId of
                  None \<Rightarrow> (st, 500, Message ''Internal Server Error'')
                | Some path \<Rightarrow>
                    (case map_of st path of
                       None \<Rightarrow> (st, 500, Message ''Internal Server Error'')
                     | Some d \<Rightarrow>
                         (AList.update path (d\<lparr>subject_name := name\<rparr>) st,
                          200, Message ''Subject updated successfully''))))"

text \<open>\<^verbatim>\<open>DELETE /api/subjects/:subjectId\<close>: \<^verbatim>\<open>doc(subjectId).delete()\<close> inside the
  \<^verbatim>\<open>try\<close>.\<close>

definition delete_subject :: "string \<Rightarrow> subject store \<Rightarrow> result" where
  "delete_subject subjectId st =
     (case doc_ref subjectId of
        None \<Rightarrow> (st, 500, Message ''Internal Server Error'')
      | Some path \<Rightarrow> (AList.delete path st, 200, Message ''Subject deleted successfully''))"

text \<open>The id of \<^verbatim>\<open>newFile\<close>:
  \<^verbatim>\<open>Timestamp.now().toMillis().toString() + Math.random().toString(36).substr(2, 9)\<close>.\<close>

definition new_file_id :: "env \<Rightarrow> string" where
  "new_file_id e = to_string (now_millis e) @ substr 2 9 (random36 e)"

text \<open>\<^verbatim>\<open>POST /api/subjects/:subjectId/files\<close>: the test \<^verbatim>\<open>!name || !content\<close>,
  \<^verbatim>\<open>doc(subjectId)\<close>, the read of the subject, then
  \<^verbatim>\<open>update({ files: arrayUnion(newFile) })\<close>.\<close>

definition post_file :: "env \<Rightarrow> string \<Rightarrow> req_body \<Rightarrow> subject store \<Rightarrow> result" where
  "post_file e subjectId b st =
     (let bad = (st, 400, Message ''File name and content are required.'')
      in case (body_prop b ''name'', body_prop b ''content'') of
           (Some name, Some content) \<Rightarrow>
             if \<not> truthy name \<or> \<not> truthy content then bad
             else (case doc_ref subjectId of
                     None \<Rightarrow> (st, 500, Message ''Internal Server Error'')
                   | Some path \<Rightarrow>
                       (case map_of st path of
                          None \<Rightarrow> (st, 404, Message ''Subject not found.'')
                        | Some d \<Rightarrow>
                            (let newFile =
                                   \<lparr>file_id = new_file_id e, file_name = name,
                                    file_content = content\<rparr>
                             in (AList.update path (d\<lparr>files := arrayUnion newFile (files d)\<rparr>) st,
                                 201, File_json newFile))))
         | _ \<Rightarrow> bad)"

text \<open>\<^verbatim>\<open>DELETE /api/subjects/:subjectId/files/:fileId\<close>: \<^verbatim>\<open>doc(subjectId)\<close>, the read
  of the subject, \<^verbatim>\<open>files.find(f => f.id === fileId)\<close>, then
  \<^verbatim>\<open>update({ files: arrayRemove(fileToRemove) })\<close>.\<close>

definition delete_file :: "string \<Rightarrow> string \<Rightarrow> subject store \<Rightarrow> result" where
  "delete_file subjectId fileId st =
     (case doc_ref subjectId of
        None \<Rightarrow> (st, 500, Message ''Internal Server Error'')
      | Some path \<Rightarrow>
          (case map_of st path of
             None \<Rightarrow> (st, 404, Message ''Subject not found.'')
           | Some d \<Rightarrow>
               (case find (\<lambda>f. file_id f = fileId) (files d) of
                  None \<Rightarrow> (st, 404, Message ''File not found.'')
                | Some fileToRemove \<Rightarrow>
                    (AList.update path (d\<lparr>files := arrayRemove fileToRemove (files d)\<rparr>) st,
                     200, Message ''File deleted successfully''))))"

section \<open>Variant 2: the handlers of \<^verbatim>\<open>server.js\<close>\<close>

text \<open>
  Its collection is \<^verbatim>\<open>users/test-user-12345/subjects\<close>. The documents are the request
  bodies as they came; \<^verbatim>\<open>set\<close> throws on an array.
\<close>

type_synonym result2 = "json store \<times> (json, unit) response"

fun doc_data :: "req_body \<Rightarrow> json option" where
  "doc_data (Body_obj kvs) = Some (JObj kvs)"
| "doc_data (Body_arr xs) = None"

text \<open>\<^verbatim>\<open>GET /api/subjects\<close>: on an empty snapshot every sample subject is set under
  \<^verbatim>\<open>doc(String(subject.id))\<close> and the sample list is sent. The loop stops at a throw
  (\<open>Inl\<close>, with what was written before it).\<close>

definition initialSubjects :: "json list" where
  "initialSubjects =
     [JObj [(''id'', JNum 1), (''name'', JStr ''Anatomy''),
            (''files'',
             JArr [JObj [(''name'', JStr ''Cranial Nerves.txt''),
                         (''content'', JStr ''The twelve cranial nerves...'')],
                   JObj [(''name'', JStr ''Muscles of Mastication.txt''),
                         (''content'', JStr ''The four primary muscles...'')]])]]"

fun seed :: "json list \<Rightarrow> json store \<Rightarrow> json store + json store" where
  "seed [] st = Inr st"
| "seed (subject # rest) st =
     (case doc_ref (js_String_opt (doc_field subject ''id'')) of
        None \<Rightarrow> Inl st
      | Some path \<Rightarrow> seed rest (AList.update path subject st))"

definition get_subjects_v2 :: "json store \<Rightarrow> result2" where
  "get_subjects_v2 st =
     (if children st = []
      then (case seed initialSubjects st of
              Inl st' \<Rightarrow> (st', 500, Text ''Error fetching data from server.'')
            | Inr st' \<Rightarrow> (st', 200, Docs initialSubjects))
      else (st, 200, Docs (children st)))"

text \<open>\<^verbatim>\<open>POST /api/subjects\<close>: the body is set under \<^verbatim>\<open>doc(String(newSubject.id))\<close>.\<close>

definition post_subject_v2 :: "req_body \<Rightarrow> json store \<Rightarrow> result2" where
  "post_subject_v2 newSubject st =
     (if \<not> body_truthy newSubject \<or> falsy (body_prop newSubject ''name'') \<or> falsy (body_prop newSubject ''id'')
      then (st, 400, Text ''Invalid subject data.'')
      else (case doc_ref (js_String_opt (body_prop newSubject ''id'')) of
              None \<Rightarrow> (st, 500, Text ''Error saving data.'')
            | Some path \<Rightarrow>
                (case doc_data newSubject of
                   None \<Rightarrow> (st, 500, Text ''Error saving data.'')
                 | Some d \<Rightarrow> (AList.update path d st, 201, Doc d))))"

text \<open>\<^verbatim>\<open>PUT /api/subjects/:subjectId\<close>: \<^verbatim>\<open>doc(subjectId).set(updatedSubject)\<close>.\<close>

definition put_subject_v2 :: "string \<Rightarrow> req_body \<Rightarrow> json store \<Rightarrow> result2" where
  "put_subject_v2 subjectId updatedSubject st =
     (if \<not> body_truthy updatedSubject then (st, 400, Text ''Invalid update data.'')
      else (case doc_ref subjectId of
              None \<Rightarrow> (st, 500, Text ''Error updating data.'')
            | Some path \<Rightarrow>
                (case doc_data updatedSubject of
                   None \<Rightarrow> (st, 500, Text ''Error updating data.'')
                 | Some d \<Rightarrow> (AList.update path d st, 200, Doc d))))"

text \<open>\<^verbatim>\<open>DELETE /api/subjects/:subjectId\<close>: \<^verbatim>\<open>doc(subjectId).delete()\<close> inside the
  \<^verbatim>\<open>try\<close>.\<close>

definition delete_subject_v2 :: "string \<Rightarrow> json store \<Rightarrow> result2" where
  "delete_subject_v2 subjectId st =
     (case doc_ref subjectId of
        None \<Rightarrow> (st, 500, Text ''Error deleting data.'')
      | Some path \<Rightarrow> (AList.delete path st, 204, No_content))"

section \<open>Requests\<close>

text \<open>The routes of the two servers, and the handler each route runs.\<close>

datatype request =
    GET_subjects
  | POST_subjects req_body
  | PUT_subject string req_body
  | DELETE_subject string
  | POST_file string req_body
  | DELETE_file string string

fun handle :: "env \<Rightarrow> request \<Rightarrow> subject store \<Rightarrow> result" where
  "handle e GET_subjects st = get_subjects st"
| "handle e (POST_subjects b) st = post_subject e b st"
| "handle e (PUT_subject subjectId b) st = put_subject subjectId b st"
| "handle e (DELETE_subject subjectId) st = delete_subject subjectId st"
| "handle e (POST_file subjectId b) st = post_file e subjectId b st"
| "handle e (DELETE_file subjectId fileId) st = delete_file subjectId fileId st"

datatype request_v2 =
    GET_subjects_v2
  | POST_subjects_v2 req_body
  | PUT_subject_v2 string req_body
  | DELETE_subject_v2 string

fun handle_v2 :: "request_v2 \<Rightarrow> json store \<Rightarrow> result2" where
  "handle_v2 GET_subjects_v2 st = get_subjects_v2 st"
| "handle_v2 (POST_subjects_v2 b) st = post_subject_v2 b st"
| "handle_v2 (PUT_subject_v2 subjectId b) st = put_subject_v2 subjectId b st"
| "handle_v2 (DELETE_subject_v2 subjectId) st = delete_subject_v2 subjectId st"

text \<open>
  The document a handler builds its reference to, the result of \<^verbatim>\<open>doc(...)\<close>: the
  document the id in the request's path names, or the document the request creates (under
  the generated id of a new subject in variant 1, under \<^verbatim>\<open>String(newSubject.id)\<close> in
  variant 2, and under \<^verbatim>\<open>String(1)\<close> for the sample subject of the listing in variant 2).
  The listing of variant 1 builds none, and a \<^verbatim>\<open>doc(...)\<close> that throws builds none.
\<close>

fun targeted :: "env \<Rightarrow> request \<Rightarrow> doc_path option" where
  "targeted e GET_subjects = None"
| "targeted e (POST_subjects b) = Some [new_doc_id e]"
| "targeted e (PUT_subject subjectId b) = doc_ref subjectId"
| "targeted e (DELETE_subject subjectId) = doc_ref subjectId"
| "targeted e (POST_file subjectId b) = doc_ref subjectId"
| "targeted e (DELETE_file subjectId fileId) = doc_ref subjectId"

fun targeted_v2 :: "request_v2 \<Rightarrow> doc_path option" where
  "targeted_v2 GET_subjects_v2 = Some [''1'']"
| "targeted_v2 (POST_subjects_v2 b) = doc_ref (js_String_opt (body_prop b ''id''))"
| "targeted_v2 (PUT_subject_v2 subjectId b) = doc_ref subjectId"
| "targeted_v2 (DELETE_subject_v2 subjectId) = doc_ref subjectId"

section \<open>Facts about the printed timestamp\<close>

lemma digit_char_inj: "d < 10 \<Longrightarrow> d' < 10 \<Longrightarrow> digit_char d = digit_char d' \<Longrightarrow> d = d'"
proof -
  assume a: "d < 10" "d' < 10" "digit_char d = digit_char d'"
  have dist: "distinct ''0123456789''" by simp
  have len: "length ''0123456789'' = 10" by simp
  from a show "d = d'"
    unfolding digit_char_def using dist len by (metis nth_eq_iff_index_eq)
qed

lemma digit_char_not_minus: "d < 10 \<Longrightarrow> digit_char d \<noteq> CHR ''-''"
proof -
  assume "d < 10"
  then have "digit_char d \<in> set ''0123456789''"
    unfolding digit_char_def by (intro nth_mem) simp
  then show ?thesis by auto
qed

lemma dec_nat_nonempty: "dec_nat n \<noteq> []"
  by (subst dec_nat.simps) simp

lemma dec_nat_no_minus: "CHR ''-'' \<notin> set (dec_nat n)"
proof (induction n rule: dec_nat.induct)
  case (1 n)
  show ?case
  proof (cases "n < 10")
    case True
    then show ?thesis
      using digit_char_not_minus [of n] by (subst dec_nat.simps) auto
  next
    case False
    have "n mod 10 < 10" by simp
    then have "digit_char (n mod 10) \<noteq> CHR ''-''" by (rule digit_char_not_minus)
    with False 1 show ?thesis
      by (subst dec_nat.simps) auto
  qed
qed

lemma dec_nat_inj: "dec_nat n = dec_nat m \<Longrightarrow> n = m"
proof (induction n arbitrary: m rule: dec_nat.induct)
  case (1 n)
  note ne = dec_nat_nonempty dec_nat_nonempty [THEN not_sym]
  show ?case
  proof (cases "n < 10")
    case n_small: True
    show ?thesis
    proof (cases "m < 10")
      case True
      with n_small "1.prems" show ?thesis
        by (simp add: dec_nat.simps [of n] dec_nat.simps [of m] digit_char_inj)
    next
      case False
      with n_small "1.prems" show ?thesis
        by (simp add: dec_nat.simps [of n] dec_nat.simps [of m] ne)
    qed
  next
    case n_big: False
    show ?thesis
    proof (cases "m < 10")
      case True
      with n_big "1.prems" show ?thesis
        by (simp add: dec_nat.simps [of n] dec_nat.simps [of m] ne)
    next
      case False
      with n_big "1.prems" have eq: "dec_nat (n div 10) = dec_nat (m div 10)"
        and dg: "digit_char (n mod 10) = digit_char (m mod 10)"
        by (simp_all add: dec_nat.simps [of n] dec_nat.simps [of m])
      from eq n_big have "n div 10 = m div 10" by (rule "1.IH" [rotated])
      moreover from dg have "n mod 10 = m mod 10" by (intro digit_char_inj) simp_all
      ultimately show ?thesis by (metis div_mult_mod_eq)
    qed
  qed
qed

lemma dec_int_nonempty: "dec_int i \<noteq> []"
  by (simp add: dec_int_def dec_nat_nonempty)

lemma dec_int_inj: "dec_int i = dec_int j \<Longrightarrow> i = j"
proof -
  assume eq: "dec_int i = dec_int j"
  have hd_pos: "\<And>n. hd (dec_nat n) \<noteq> CHR ''-''"
    using dec_nat_no_minus dec_nat_nonempty by (metis hd_in_set)
  show "i = j"
  proof (cases "i < 0")
    case i_neg: True
    show ?thesis
    proof (cases "j < 0")
      case True
      with i_neg eq have "dec_nat (nat (- i)) = dec_nat (nat (- j))"
        by (simp add: dec_int_def)
      then have "nat (- i) = nat (- j)" by (rule dec_nat_inj)
      with i_neg True show ?thesis by simp
    next
      case False
      with i_neg eq have "CHR ''-'' # dec_nat (nat (- i)) = dec_nat (nat j)"
        by (simp add: dec_int_def)
      then have "hd (dec_nat (nat j)) = CHR ''-''" by (metis list.sel(1))
      with hd_pos show ?thesis by blast
    qed
  next
    case i_pos: False
    show ?thesis
    proof (cases "j < 0")
      case True
      with i_pos eq have "dec_nat (nat i) = CHR ''-'' # dec_nat (nat (- j))"
        by (simp add: dec_int_def)
      then have "hd (dec_nat (nat i)) = CHR ''-''" by (metis list.sel(1))
      with hd_pos show ?thesis by blast
    next
      case False
      with i_pos eq have "dec_nat (nat i) = dec_nat (nat j)"
        by (simp add: dec_int_def)
      then have "nat i = nat j" by (rule dec_nat_inj)
      with i_pos False show ?thesis by simp
    qed
  qed
qed

lemma to_string_nonempty: "to_string n \<noteq> []"
  by (simp add: to_string_def dec_int_nonempty)

lemma to_string_inj: "to_string n = to_string m \<Longrightarrow> n = m"
  unfolding to_string_def by (rule signed_word_eqI) (rule dec_int_inj)

lemma new_file_id_eq_iff:
  assumes "length (to_string (now_millis e)) = length (to_string (now_millis e'))"
  shows "new_file_id e = new_file_id e' \<longleftrightarrow>
         now_millis e = now_millis e' \<and> substr 2 9 (random36 e) = substr 2 9 (random36 e')"
  using assms by (auto simp: new_file_id_def dest: to_string_inj)

lemma to_string_1: "to_string 1 = ''1''"
  by (simp add: to_string_def dec_int_def dec_nat.simps digit_char_def)

section \<open>Facts about document references\<close>

lemma doc_ref_1: "doc_ref ''1'' = Some [''1'']"
  by (simp add: doc_ref_def)

lemma seed_initialSubjects:
  "seed initialSubjects st = Inr (AList.update [''1''] (hd initialSubjects) st)"
  by (simp add: initialSubjects_def js_String_opt_def to_string_1 doc_ref_1)

lemma absent_delete: "map_of st path = None \<Longrightarrow> AList.delete path st = st"
  by (simp add: map_of_eq_None_iff)

section \<open>The sample listing of variant 2\<close>



section \<open>Renaming with an empty name\<close>

text \<open>
  Claim C8. A rename request (variant 1) whose body has no \<^verbatim>\<open>name\<close>, or the empty string
  as \<^verbatim>\<open>name\<close>, is answered with 400 and leaves the store as it is, so that the listing
  after it is the listing before it.
\<close>

theorem put_subject_rejects_empty_name:
  assumes "body_prop b ''name'' = None \<or> body_prop b ''name'' = Some (JStr [])"
  shows "put_subject subjectId b st = (st, 400, Message ''New name is required.'')
       \<and> get_subjects (fst (put_subject subjectId b st)) = get_subjects st"
  using assms by (auto simp: put_subject_def)

theorem put_subject_rejects_empty_name_witness:
  "put_subject ''a'' (Body_obj [(''name'', JStr [])])
     [([''a''], \<lparr>subject_id = ''a'', subject_name = JStr ''Anatomy'', files = []\<rparr>)]
   = ([([''a''], \<lparr>subject_id = ''a'', subject_name = JStr ''Anatomy'', files = []\<rparr>)],
      400, Message ''New name is required.'')
   \<and> put_subject ''a'' (Body_obj [])
     [([''a''], \<lparr>subject_id = ''a'', subject_name = JStr ''Anatomy'', files = []\<rparr>)]
   = ([([''a''], \<lparr>subject_id = ''a'', subject_name = JStr ''Anatomy'', files = []\<rparr>)],
      400, Message ''New name is required.'')
   \<and> snd (snd (get_subjects (fst (put_subject ''a'' (Body_obj [(''name'', JStr [])])
        [([''a''], \<lparr>subject_id = ''a'', subject_name = JStr ''Anatomy'', files = []\<rparr>)]))))
       = Docs [\<lparr>subject_id = ''a'', subject_name = JStr ''Anatomy'', files = []\<rparr>]"
  using put_subject_rejects_empty_name
    [of "Body_obj [(''name'', JStr [])]" "''a''"
        "[([''a''], \<lparr>subject_id = ''a'', subject_name = JStr ''Anatomy'', files = []\<rparr>)]"]
    put_subject_rejects_empty_name
    [of "Body_obj []" "''a''"
        "[([''a''], \<lparr>subject_id = ''a'', subject_name = JStr ''Anatomy'', files = []\<rparr>)]"]
  by (simp add: get_subjects_def children_def)

section \<open>Creating a subject\<close>

text \<open>
  Claim C2. A create-subject request of variant 1 whose \<^verbatim>\<open>name\<close> is missing, is not a
  string, or trims to the empty string is answered with 400 and the store is as before;
  every other request stores a new subject under the generated id, with the trimmed name
  and no files, and answers 201 with that subject.
\<close>

theorem post_subject_validates_name:
  "(body_prop b ''name'' = None
      \<or> (\<exists>v. body_prop b ''name'' = Some v \<and> (\<forall>s. v \<noteq> JStr s))
      \<or> (\<exists>s. body_prop b ''name'' = Some (JStr s) \<and> trim s = [])
    \<longrightarrow> post_subject e b st = (st, 400, Message ''Subject name is required.''))
   \<and> (\<forall>s. body_prop b ''name'' = Some (JStr s) \<and> trim s \<noteq> []
        \<longrightarrow> post_subject e b st =
              (AList.update [new_doc_id e]
                 \<lparr>subject_id = new_doc_id e, subject_name = JStr (trim s), files = []\<rparr> st,
               201, Doc \<lparr>subject_id = new_doc_id e, subject_name = JStr (trim s), files = []\<rparr>)
          \<and> map_of (fst (post_subject e b st)) [new_doc_id e]
              = Some \<lparr>subject_id = new_doc_id e, subject_name = JStr (trim s), files = []\<rparr>)"
proof -
  have trim_nil: "trim [] = []" by (simp add: trim_def)
  show ?thesis
    by (auto simp: post_subject_def falsy_def Let_def update_conv' trim_nil
             split: option.splits json.splits)
qed

theorem post_subject_validates_name_witness:
  "post_subject \<lparr>new_doc_id = ''d1'', now_millis = 0, random36 = ''0''\<rparr> (Body_obj []) []
     = ([], 400, Message ''Subject name is required.'')
   \<and> post_subject \<lparr>new_doc_id = ''d1'', now_millis = 0, random36 = ''0''\<rparr>
        (Body_obj [(''name'', JNum 5)]) []
     = ([], 400, Message ''Subject name is required.'')
   \<and> post_subject \<lparr>new_doc_id = ''d1'', now_millis = 0, random36 = ''0''\<rparr>
        (Body_obj [(''name'', JStr ''   '')]) []
     = ([], 400, Message ''Subject name is required.'')
   \<and> post_subject \<lparr>new_doc_id = ''d1'', now_millis = 0, random36 = ''0''\<rparr>
        (Body_obj [(''name'', JStr ''  Anatomy '')]) []
     = ([([''d1''], \<lparr>subject_id = ''d1'', subject_name = JStr ''Anatomy'', files = []\<rparr>)],
        201, Doc \<lparr>subject_id = ''d1'', subject_name = JStr ''Anatomy'', files = []\<rparr>)"
  using post_subject_validates_name
      [of "Body_obj []" "\<lparr>new_doc_id = ''d1'', now_millis = 0, random36 = ''0''\<rparr>" "[]",
       THEN conjunct1]
    post_subject_validates_name
      [of "Body_obj [(''name'', JNum 5)]"
          "\<lparr>new_doc_id = ''d1'', now_millis = 0, random36 = ''0''\<rparr>" "[]", THEN conjunct1]
    post_subject_validates_name
      [of "Body_obj [(''name'', JStr ''   '')]"
          "\<lparr>new_doc_id = ''d1'', now_millis = 0, random36 = ''0''\<rparr>" "[]", THEN conjunct1]
    post_subject_validates_name
      [of "Body_obj [(''name'', JStr ''  Anatomy '')]"
          "\<lparr>new_doc_id = ''d1'', now_millis = 0, random36 = ''0''\<rparr>" "[]",
       THEN conjunct2, THEN spec, of "''  Anatomy ''"]
  by (simp add: trim_def is_ws_def)

section \<open>Deleting a file\<close>

lemma find_in_image:
  "k \<in> f ` set xs \<Longrightarrow> \<exists>x. find (\<lambda>y. f y = k) xs = Some x"
  by (cases "find (\<lambda>y. f y = k) xs") (auto simp: find_None_iff)

lemma find_distinct_filter:
  assumes "distinct (map f xs)" and "find (\<lambda>y. f y = k) xs = Some x"
  shows "filter (\<lambda>y. y \<noteq> x) xs = filter (\<lambda>y. f y \<noteq> k) xs"
proof (rule filter_cong [OF refl])
  fix y assume y: "y \<in> set xs"
  from assms(2) have x: "x \<in> set xs" "f x = k"
    by (auto simp: find_Some_iff)
  from assms(1) have "inj_on f (set xs)" by (simp add: distinct_map)
  with x y show "(y \<noteq> x) = (f y \<noteq> k)" by (auto dest: inj_onD)
qed

lemma filter_distinct_split:
  assumes "distinct (map f xs)" and "k \<in> f ` set xs"
  shows "\<exists>ys x zs. xs = ys @ x # zs \<and> f x = k \<and> filter (\<lambda>y. f y \<noteq> k) xs = ys @ zs"
proof -
  from assms(2) obtain x where "x \<in> set xs" "f x = k" by auto
  then obtain ys zs where xs: "xs = ys @ x # zs" by (auto dest: split_list)
  with assms(1) \<open>f x = k\<close> have "k \<notin> f ` set ys" "k \<notin> f ` set zs" by auto
  then have "filter (\<lambda>y. f y \<noteq> k) ys = ys" "filter (\<lambda>y. f y \<noteq> k) zs = zs"
    by (auto simp: filter_id_conv)
  with xs \<open>f x = k\<close> show ?thesis by auto
qed

text \<open>
  Claim C1. When the ids of a stored subject's files are pairwise different and one of the
  files has the id \<open>F\<close>, deleting \<open>F\<close> answers 200 and leaves the subject with the files
  whose id is not \<open>F\<close>, each as it was and in the order it had: the sequence was
  \<open>ys @ x # zs\<close> with \<open>x\<close> the file of id \<open>F\<close>, and it becomes \<open>ys @ zs\<close>.
\<close>

theorem delete_file_removes_exactly:
  assumes "doc_ref subjectId = Some path" and "map_of st path = Some d"
    and "distinct (map file_id (files d))"
    and "fileId \<in> file_id ` set (files d)"
  shows "delete_file subjectId fileId st =
           (AList.update path (d\<lparr>files := filter (\<lambda>f. file_id f \<noteq> fileId) (files d)\<rparr>) st,
            200, Message ''File deleted successfully'')
       \<and> map_of (fst (delete_file subjectId fileId st)) path
           = Some (d\<lparr>files := filter (\<lambda>f. file_id f \<noteq> fileId) (files d)\<rparr>)
       \<and> (\<exists>ys x zs. files d = ys @ x # zs \<and> file_id x = fileId
             \<and> filter (\<lambda>f. file_id f \<noteq> fileId) (files d) = ys @ zs)"
proof -
  from assms(4) obtain x where x: "find (\<lambda>f. file_id f = fileId) (files d) = Some x"
    using find_in_image by fastforce
  with assms(3) have "arrayRemove x (files d) = filter (\<lambda>f. file_id f \<noteq> fileId) (files d)"
    unfolding arrayRemove_def by (rule find_distinct_filter)
  with x assms(1,2) have res: "delete_file subjectId fileId st =
           (AList.update path (d\<lparr>files := filter (\<lambda>f. file_id f \<noteq> fileId) (files d)\<rparr>) st,
            200, Message ''File deleted successfully'')"
    by (simp add: delete_file_def)
  then have "map_of (fst (delete_file subjectId fileId st)) path
           = Some (d\<lparr>files := filter (\<lambda>f. file_id f \<noteq> fileId) (files d)\<rparr>)"
    by (simp add: update_conv')
  with res filter_distinct_split [OF assms(3,4)] show ?thesis by blast
qed

theorem delete_file_removes_exactly_witness:
  "delete_file ''a'' ''f2''
     [([''a''], \<lparr>subject_id = ''a'', subject_name = JStr ''Anatomy'',
              files = [\<lparr>file_id = ''f1'', file_name = JStr ''one'', file_content = JStr ''x''\<rparr>,
                       \<lparr>file_id = ''f2'', file_name = JStr ''two'', file_content = JStr ''y''\<rparr>,
                       \<lparr>file_id = ''f3'', file_name = JStr ''three'', file_content = JStr ''z''\<rparr>]\<rparr>)]
   = ([([''a''], \<lparr>subject_id = ''a'', subject_name = JStr ''Anatomy'',
               files = [\<lparr>file_id = ''f1'', file_name = JStr ''one'', file_content = JStr ''x''\<rparr>,
                        \<lparr>file_id = ''f3'', file_name = JStr ''three'', file_content = JStr ''z''\<rparr>]\<rparr>)],
      200, Message ''File deleted successfully'')"
  using delete_file_removes_exactly
    [of "''a''" "[''a'']"
        "[([''a''], \<lparr>subject_id = ''a'', subject_name = JStr ''Anatomy'',
              files = [\<lparr>file_id = ''f1'', file_name = JStr ''one'', file_content = JStr ''x''\<rparr>,
                       \<lparr>file_id = ''f2'', file_name = JStr ''two'', file_content = JStr ''y''\<rparr>,
                       \<lparr>file_id = ''f3'', file_name = JStr ''three'', file_content = JStr ''z''\<rparr>]\<rparr>)]"
        "\<lparr>subject_id = ''a'', subject_name = JStr ''Anatomy'',
              files = [\<lparr>file_id = ''f1'', file_name = JStr ''one'', file_content = JStr ''x''\<rparr>,
                       \<lparr>file_id = ''f2'', file_name = JStr ''two'', file_content = JStr ''y''\<rparr>,
                       \<lparr>file_id = ''f3'', file_name = JStr ''three'', file_content = JStr ''z''\<rparr>]\<rparr>"
        "''f2''"]
  by (simp add: doc_ref_def)

text \<open>
  Claim C7. The handler hands the first entry whose id is the requested one to
  \<^verbatim>\<open>arrayRemove\<close>, which compares whole entries: the entries that go are those equal to
  it in every field, and an entry that shares the id but differs elsewhere stays.
\<close>

theorem delete_file_matches_whole_entry:
  assumes "doc_ref subjectId = Some path" and "map_of st path = Some d"
    and "find (\<lambda>f. file_id f = fileId) (files d) = Some x"
  shows "delete_file subjectId fileId st =
           (AList.update path (d\<lparr>files := filter (\<lambda>f. f \<noteq> x) (files d)\<rparr>) st,
            200, Message ''File deleted successfully'')
       \<and> (\<forall>f \<in> set (files d). file_id f = fileId \<and> f \<noteq> x \<longrightarrow>
             (\<exists>d'. map_of (fst (delete_file subjectId fileId st)) path = Some d'
                  \<and> f \<in> set (files d')))"
  using assms by (simp add: delete_file_def arrayRemove_def update_conv')

theorem delete_file_matches_whole_entry_witness:
  "delete_file ''a'' ''f1''
     [([''a''], \<lparr>subject_id = ''a'', subject_name = JStr ''Anatomy'',
              files = [\<lparr>file_id = ''f1'', file_name = JStr ''n'', file_content = JStr ''old''\<rparr>,
                       \<lparr>file_id = ''f1'', file_name = JStr ''n'', file_content = JStr ''new''\<rparr>,
                       \<lparr>file_id = ''f2'', file_name = JStr ''m'', file_content = JStr ''z''\<rparr>]\<rparr>)]
   = ([([''a''], \<lparr>subject_id = ''a'', subject_name = JStr ''Anatomy'',
               files = [\<lparr>file_id = ''f1'', file_name = JStr ''n'', file_content = JStr ''new''\<rparr>,
                        \<lparr>file_id = ''f2'', file_name = JStr ''m'', file_content = JStr ''z''\<rparr>]\<rparr>)],
      200, Message ''File deleted successfully'')"
  using delete_file_matches_whole_entry
    [of "''a''" "[''a'']"
        "[([''a''], \<lparr>subject_id = ''a'', subject_name = JStr ''Anatomy'',
              files = [\<lparr>file_id = ''f1'', file_name = JStr ''n'', file_content = JStr ''old''\<rparr>,
                       \<lparr>file_id = ''f1'', file_name = JStr ''n'', file_content = JStr ''new''\<rparr>,
                       \<lparr>file_id = ''f2'', file_name = JStr ''m'', file_content = JStr ''z''\<rparr>]\<rparr>)]"
        "\<lparr>subject_id = ''a'', subject_name = JStr ''Anatomy'',
              files = [\<lparr>file_id = ''f1'', file_name = JStr ''n'', file_content = JStr ''old''\<rparr>,
                       \<lparr>file_id = ''f1'', file_name = JStr ''n'', file_content = JStr ''new''\<rparr>,
                       \<lparr>file_id = ''f2'', file_name = JStr ''m'', file_content = JStr ''z''\<rparr>]\<rparr>"
        "''f1''"
        "\<lparr>file_id = ''f1'', file_name = JStr ''n'', file_content = JStr ''old''\<rparr>"]
  by (simp add: doc_ref_def)

text \<open>
  Claim C3 says that a delete-file request whose subject is not stored is answered with
  404. The handler builds the document reference inside its \<^verbatim>\<open>try\<close> before it reads
  the subject, and the client throws on an id that is not the path of a document, as
  \<^verbatim>\<open>a/b\<close>: the answer is 500.
\<close>

theorem delete_file_invalid_path_counterexample:
  "doc_ref ''a/b'' = None
   \<and> map fst [([''a''], \<lparr>subject_id = ''a'', subject_name = JStr ''Anatomy'',
                       files = [\<lparr>file_id = ''f1'', file_name = JStr ''n'',
                                 file_content = JStr ''c''\<rparr>]\<rparr>)] = [[''a'']]
   \<and> delete_file ''a/b'' ''f1''
       [([''a''], \<lparr>subject_id = ''a'', subject_name = JStr ''Anatomy'',
                  files = [\<lparr>file_id = ''f1'', file_name = JStr ''n'', file_content = JStr ''c''\<rparr>]\<rparr>)]
     = ([([''a''], \<lparr>subject_id = ''a'', subject_name = JStr ''Anatomy'',
                   files = [\<lparr>file_id = ''f1'', file_name = JStr ''n'', file_content = JStr ''c''\<rparr>]\<rparr>)],
        500, Message ''Internal Server Error'')"
  by (simp add: delete_file_def doc_ref_def)

text \<open>
  Claim C3, amended. A delete-file request whose subject id names no stored document, or
  whose subject is stored but has no file with the given id, leaves the store exactly as
  it was. It is answered with 404 when the subject id is the path of a document (an odd
  number of segments between slashes, as every id without a slash is), and with 500 when
  it is not.
\<close>

theorem delete_file_not_found:
  "(doc_ref subjectId = None \<longrightarrow>
      delete_file subjectId fileId st = (st, 500, Message ''Internal Server Error''))
   \<and> (\<forall>path. doc_ref subjectId = Some path \<and> map_of st path = None \<longrightarrow>
         delete_file subjectId fileId st = (st, 404, Message ''Subject not found.''))
   \<and> (\<forall>path d. doc_ref subjectId = Some path \<and> map_of st path = Some d
                 \<and> fileId \<notin> file_id ` set (files d) \<longrightarrow>
         delete_file subjectId fileId st = (st, 404, Message ''File not found.''))"
proof -
  have none: "find (\<lambda>f. file_id f = fileId) fs = None" if "fileId \<notin> file_id ` set fs" for fs
    using that by (auto simp: find_None_iff)
  show ?thesis
    by (auto simp: delete_file_def none)
qed

theorem delete_file_not_found_witness:
  "delete_file ''b'' ''f1''
     [([''a''], \<lparr>subject_id = ''a'', subject_name = JStr ''Anatomy'',
              files = [\<lparr>file_id = ''f1'', file_name = JStr ''n'', file_content = JStr ''c''\<rparr>]\<rparr>)]
   = ([([''a''], \<lparr>subject_id = ''a'', subject_name = JStr ''Anatomy'',
               files = [\<lparr>file_id = ''f1'', file_name = JStr ''n'', file_content = JStr ''c''\<rparr>]\<rparr>)],
      404, Message ''Subject not found.'')
   \<and> delete_file ''a'' ''f2''
     [([''a''], \<lparr>subject_id = ''a'', subject_name = JStr ''Anatomy'',
              files = [\<lparr>file_id = ''f1'', file_name = JStr ''n'', file_content = JStr ''c''\<rparr>]\<rparr>)]
   = ([([''a''], \<lparr>subject_id = ''a'', subject_name = JStr ''Anatomy'',
               files = [\<lparr>file_id = ''f1'', file_name = JStr ''n'', file_content = JStr ''c''\<rparr>]\<rparr>)],
      404, Message ''File not found.'')
   \<and> delete_file ''a//b'' ''f1''
     [([''a''], \<lparr>subject_id = ''a'', subject_name = JStr ''Anatomy'',
              files = [\<lparr>file_id = ''f1'', file_name = JStr ''n'', file_content = JStr ''c''\<rparr>]\<rparr>)]
   = ([([''a''], \<lparr>subject_id = ''a'', subject_name = JStr ''Anatomy'',
               files = [\<lparr>file_id = ''f1'', file_name = JStr ''n'', file_content = JStr ''c''\<rparr>]\<rparr>)],
      500, Message ''Internal Server Error'')"
  using delete_file_not_found
    [of "''b''" "''f1''"
        "[([''a''], \<lparr>subject_id = ''a'', subject_name = JStr ''Anatomy'',
              files = [\<lparr>file_id = ''f1'', file_name = JStr ''n'', file_content = JStr ''c''\<rparr>]\<rparr>)]",
     THEN conjunct2, THEN conjunct1, THEN spec, of "[''b'']"]
    delete_file_not_found
    [of "''a''" "''f2''"
        "[([''a''], \<lparr>subject_id = ''a'', subject_name = JStr ''Anatomy'',
              files = [\<lparr>file_id = ''f1'', file_name = JStr ''n'', file_content = JStr ''c''\<rparr>]\<rparr>)]",
     THEN conjunct2, THEN conjunct2, THEN spec, THEN spec, of "[''a'']"
       "\<lparr>subject_id = ''a'', subject_name = JStr ''Anatomy'',
              files = [\<lparr>file_id = ''f1'', file_name = JStr ''n'', file_content = JStr ''c''\<rparr>]\<rparr>"]
    delete_file_not_found
    [of "''a//b''" "''f1''"
        "[([''a''], \<lparr>subject_id = ''a'', subject_name = JStr ''Anatomy'',
              files = [\<lparr>file_id = ''f1'', file_name = JStr ''n'', file_content = JStr ''c''\<rparr>]\<rparr>)]",
     THEN conjunct1]
  by (simp add: doc_ref_def)

section \<open>Deleting a subject that is not stored\<close>

text \<open>
  Claim C10 says that deleting a subject whose id has no stored document succeeds. Both
  handlers build the document reference inside their \<^verbatim>\<open>try\<close>, and for an id that is
  not the path of a document, as \<^verbatim>\<open>a/b\<close>, the client throws: the answer is 500.
\<close>

theorem delete_subject_invalid_path_counterexample:
  "doc_ref ''a/b'' = None
   \<and> map fst [([''a''], \<lparr>subject_id = ''a'', subject_name = JStr ''Anatomy'', files = []\<rparr>)]
       = [[''a'']]
   \<and> delete_subject ''a/b''
        [([''a''], \<lparr>subject_id = ''a'', subject_name = JStr ''Anatomy'', files = []\<rparr>)]
     = ([([''a''], \<lparr>subject_id = ''a'', subject_name = JStr ''Anatomy'', files = []\<rparr>)],
        500, Message ''Internal Server Error'')
   \<and> map fst [([''1''], JObj [(''id'', JNum 1), (''name'', JStr ''Anatomy'')])] = [[''1'']]
   \<and> delete_subject_v2 ''a/b'' [([''1''], JObj [(''id'', JNum 1), (''name'', JStr ''Anatomy'')])]
     = ([([''1''], JObj [(''id'', JNum 1), (''name'', JStr ''Anatomy'')])],
        500, Text ''Error deleting data.'')"
  by (simp add: delete_subject_def delete_subject_v2_def doc_ref_def)

text \<open>
  Claim C10, amended. In both variants the handler that deletes a subject makes no
  existence check: for an id that is the path of a document (an odd number of segments
  between slashes, as every id without a slash is) and has no stored document it answers
  with its success status (200 and a message in variant 1, 204 without a body in variant
  2) and the store is as before. For an id that is not the path of a document it answers
  500, and the store is as before.
\<close>

theorem delete_absent_subject_succeeds:
  "(\<forall>path. doc_ref subjectId = Some path \<and> map_of st path = None \<and> map_of st2 path = None \<longrightarrow>
       delete_subject subjectId st = (st, 200, Message ''Subject deleted successfully'')
     \<and> delete_subject_v2 subjectId st2 = (st2, 204, No_content))
   \<and> (doc_ref subjectId = None \<longrightarrow>
       delete_subject subjectId st = (st, 500, Message ''Internal Server Error'')
     \<and> delete_subject_v2 subjectId st2 = (st2, 500, Text ''Error deleting data.''))"
  by (simp add: delete_subject_def delete_subject_v2_def absent_delete)

theorem delete_absent_subject_succeeds_witness:
  "delete_subject ''b'' [([''a''], \<lparr>subject_id = ''a'', subject_name = JStr ''Anatomy'', files = []\<rparr>)]
       = ([([''a''], \<lparr>subject_id = ''a'', subject_name = JStr ''Anatomy'', files = []\<rparr>)],
          200, Message ''Subject deleted successfully'')
   \<and> delete_subject_v2 ''b'' [([''1''], JObj [(''id'', JNum 1), (''name'', JStr ''Anatomy'')])]
       = ([([''1''], JObj [(''id'', JNum 1), (''name'', JStr ''Anatomy'')])], 204, No_content)
   \<and> delete_subject ''/''
        [([''a''], \<lparr>subject_id = ''a'', subject_name = JStr ''Anatomy'', files = []\<rparr>)]
       = ([([''a''], \<lparr>subject_id = ''a'', subject_name = JStr ''Anatomy'', files = []\<rparr>)],
          500, Message ''Internal Server Error'')
   \<and> delete_subject_v2 ''/'' [([''1''], JObj [(''id'', JNum 1), (''name'', JStr ''Anatomy'')])]
       = ([([''1''], JObj [(''id'', JNum 1), (''name'', JStr ''Anatomy'')])],
          500, Text ''Error deleting data.'')"
  using delete_absent_subject_succeeds
    [of "''b''" "[([''a''], \<lparr>subject_id = ''a'', subject_name = JStr ''Anatomy'', files = []\<rparr>)]"
        "[([''1''], JObj [(''id'', JNum 1), (''name'', JStr ''Anatomy'')])]",
     THEN conjunct1, THEN spec, of "[''b'']"]
    delete_absent_subject_succeeds
    [of "''/''" "[([''a''], \<lparr>subject_id = ''a'', subject_name = JStr ''Anatomy'', files = []\<rparr>)]"
        "[([''1''], JObj [(''id'', JNum 1), (''name'', JStr ''Anatomy'')])]",
     THEN conjunct2]
  by (simp add: doc_ref_def)

section \<open>Adding a file\<close>

text \<open>
  Claim C4 says that the new file is always appended when the subject is stored, and that
  the answer is 404 when it is not. \<^verbatim>\<open>arrayUnion\<close> adds an element only when no equal
  element is stored: a request that produces a file equal to a stored one (same generated
  id, name and content) is answered with 201 and appends nothing. And the handler builds
  the document reference inside its \<^verbatim>\<open>try\<close> before it reads the subject: for an id that
  is not the path of a document, as \<^verbatim>\<open>a/b\<close>, the client throws and the answer is 500.
\<close>

theorem post_file_not_appended_counterexample:
  "post_file \<lparr>new_doc_id = ''d1'', now_millis = 1700000000000, random36 = ''0.4fzzzxjylrx''\<rparr> ''s''
     (Body_obj [(''name'', JStr ''a.txt''), (''content'', JStr ''x'')])
     [([''s''], \<lparr>subject_id = ''s'', subject_name = JStr ''Anatomy'',
              files = [\<lparr>file_id = ''17000000000004fzzzxjyl'', file_name = JStr ''a.txt'',
                        file_content = JStr ''x''\<rparr>]\<rparr>)]
   = ([([''s''], \<lparr>subject_id = ''s'', subject_name = JStr ''Anatomy'',
               files = [\<lparr>file_id = ''17000000000004fzzzxjyl'', file_name = JStr ''a.txt'',
                         file_content = JStr ''x''\<rparr>]\<rparr>)],
      201, File_json \<lparr>file_id = ''17000000000004fzzzxjyl'', file_name = JStr ''a.txt'',
                      file_content = JStr ''x''\<rparr>)
   \<and> fst (post_file \<lparr>new_doc_id = ''d1'', now_millis = 1700000000000, random36 = ''0.4fzzzxjylrx''\<rparr> ''s''
     (Body_obj [(''name'', JStr ''a.txt''), (''content'', JStr ''x'')])
     [([''s''], \<lparr>subject_id = ''s'', subject_name = JStr ''Anatomy'',
              files = [\<lparr>file_id = ''17000000000004fzzzxjyl'', file_name = JStr ''a.txt'',
                        file_content = JStr ''x''\<rparr>]\<rparr>)])
   \<noteq> [([''s''], \<lparr>subject_id = ''s'', subject_name = JStr ''Anatomy'',
              files = [\<lparr>file_id = ''17000000000004fzzzxjyl'', file_name = JStr ''a.txt'',
                        file_content = JStr ''x''\<rparr>,
                       \<lparr>file_id = ''17000000000004fzzzxjyl'', file_name = JStr ''a.txt'',
                        file_content = JStr ''x''\<rparr>]\<rparr>)]
   \<and> post_file \<lparr>new_doc_id = ''d1'', now_millis = 1700000000000, random36 = ''0.4fzzzxjylrx''\<rparr>
       ''a/b'' (Body_obj [(''name'', JStr ''a.txt''), (''content'', JStr ''x'')])
       [([''s''], \<lparr>subject_id = ''s'', subject_name = JStr ''Anatomy'', files = []\<rparr>)]
   = ([([''s''], \<lparr>subject_id = ''s'', subject_name = JStr ''Anatomy'', files = []\<rparr>)],
      500, Message ''Internal Server Error'')"
proof -
  have "new_file_id \<lparr>new_doc_id = ''d1'', now_millis = 1700000000000, random36 = ''0.4fzzzxjylrx''\<rparr>
          = ''17000000000004fzzzxjyl''"
    by (simp add: new_file_id_def substr_def to_string_def dec_int_def dec_nat.simps digit_char_def)
  then show ?thesis
    by (simp add: post_file_def arrayUnion_def Let_def doc_ref_def)
qed

text \<open>
  Claim C4, amended. For an add-file request with truthy \<^verbatim>\<open>name\<close> and \<^verbatim>\<open>content\<close> (a
  non-empty string is truthy): when the subject id is the path of a document and the
  subject is stored, the answer is 201 with the new file, and the new file is appended at
  the end of the subject's files unless an equal file is already among them, in which
  case the files stay as they are; it is appended whenever its id is not the id of a
  stored file. When the subject id is the path of a document and no subject is stored
  there, the answer is 404; when it is not the path of a document, the answer is 500;
  in both cases the store is as before.
\<close>

theorem post_file_appends_unless_present:
  assumes "body_prop b ''name'' = Some name" and "truthy name"
    and "body_prop b ''content'' = Some content" and "truthy content"
  shows "(doc_ref subjectId = None \<longrightarrow>
            post_file e subjectId b st = (st, 500, Message ''Internal Server Error''))
       \<and> (\<forall>path. doc_ref subjectId = Some path \<and> map_of st path = None \<longrightarrow>
            post_file e subjectId b st = (st, 404, Message ''Subject not found.''))
       \<and> (\<forall>path d. doc_ref subjectId = Some path \<and> map_of st path = Some d \<longrightarrow>
            post_file e subjectId b st =
              (AList.update path
                 (d\<lparr>files :=
                      (if \<lparr>file_id = new_file_id e, file_name = name, file_content = content\<rparr>
                            \<in> set (files d)
                       then files d
                       else files d @ [\<lparr>file_id = new_file_id e, file_name = name,
                                         file_content = content\<rparr>])\<rparr>) st,
               201, File_json \<lparr>file_id = new_file_id e, file_name = name, file_content = content\<rparr>)
          \<and> (new_file_id e \<notin> file_id ` set (files d) \<longrightarrow>
               map_of (fst (post_file e subjectId b st)) path
                 = Some (d\<lparr>files := files d @ [\<lparr>file_id = new_file_id e, file_name = name,
                                                   file_content = content\<rparr>]\<rparr>)))"
proof -
  let ?nf = "\<lparr>file_id = new_file_id e, file_name = name, file_content = content\<rparr>"
  have fresh: "?nf \<notin> set fs" if "new_file_id e \<notin> file_id ` set fs" for fs
  proof
    assume "?nf \<in> set fs"
    then have "file_id ?nf \<in> file_id ` set fs" by (rule imageI)
    with that show False by simp
  qed
  from assms show ?thesis
    by (auto simp: post_file_def Let_def arrayUnion_def update_conv' dest: fresh)
qed

theorem post_file_appends_unless_present_witness:
  "post_file \<lparr>new_doc_id = ''d1'', now_millis = 1700000000000, random36 = ''0.4fzzzxjylrx''\<rparr> ''s''
     (Body_obj [(''name'', JStr ''b.txt''), (''content'', JStr ''y'')])
     [([''s''], \<lparr>subject_id = ''s'', subject_name = JStr ''Anatomy'',
              files = [\<lparr>file_id = ''f1'', file_name = JStr ''a.txt'', file_content = JStr ''x''\<rparr>]\<rparr>)]
   = ([([''s''], \<lparr>subject_id = ''s'', subject_name = JStr ''Anatomy'',
               files = [\<lparr>file_id = ''f1'', file_name = JStr ''a.txt'', file_content = JStr ''x''\<rparr>,
                        \<lparr>file_id = ''17000000000004fzzzxjyl'', file_name = JStr ''b.txt'',
                         file_content = JStr ''y''\<rparr>]\<rparr>)],
      201, File_json \<lparr>file_id = ''17000000000004fzzzxjyl'', file_name = JStr ''b.txt'',
                      file_content = JStr ''y''\<rparr>)
   \<and> post_file \<lparr>new_doc_id = ''d1'', now_millis = 1700000000000, random36 = ''0.4fzzzxjylrx''\<rparr> ''t''
     (Body_obj [(''name'', JStr ''b.txt''), (''content'', JStr ''y'')])
     [([''s''], \<lparr>subject_id = ''s'', subject_name = JStr ''Anatomy'', files = []\<rparr>)]
   = ([([''s''], \<lparr>subject_id = ''s'', subject_name = JStr ''Anatomy'', files = []\<rparr>)],
      404, Message ''Subject not found.'')
   \<and> post_file \<lparr>new_doc_id = ''d1'', now_millis = 1700000000000, random36 = ''0.4fzzzxjylrx''\<rparr> ''s/t''
     (Body_obj [(''name'', JStr ''b.txt''), (''content'', JStr ''y'')])
     [([''s''], \<lparr>subject_id = ''s'', subject_name = JStr ''Anatomy'', files = []\<rparr>)]
   = ([([''s''], \<lparr>subject_id = ''s'', subject_name = JStr ''Anatomy'', files = []\<rparr>)],
      500, Message ''Internal Server Error'')"
proof -
  let ?e = "\<lparr>new_doc_id = ''d1'', now_millis = 1700000000000, random36 = ''0.4fzzzxjylrx''\<rparr>"
  let ?b = "Body_obj [(''name'', JStr ''b.txt''), (''content'', JStr ''y'')]"
  let ?d = "\<lparr>subject_id = ''s'', subject_name = JStr ''Anatomy'',
              files = [\<lparr>file_id = ''f1'', file_name = JStr ''a.txt'', file_content = JStr ''x''\<rparr>]\<rparr>"
  let ?st0 = "[([''s''], \<lparr>subject_id = ''s'', subject_name = JStr ''Anatomy'', files = []\<rparr>)]"
  have id: "new_file_id ?e = ''17000000000004fzzzxjyl''"
    by (simp add: new_file_id_def substr_def to_string_def dec_int_def dec_nat.simps digit_char_def)
  have h1: "body_prop ?b ''name'' = Some (JStr ''b.txt'')" by simp
  have h2: "truthy (JStr ''b.txt'')" by simp
  have h3: "body_prop ?b ''content'' = Some (JStr ''y'')" by simp
  have h4: "truthy (JStr ''y'')" by simp
  show ?thesis
    using post_file_appends_unless_present [OF h1 h2 h3 h4, of "''s''" ?e "[([''s''], ?d)]",
        THEN conjunct2, THEN conjunct2, THEN spec, THEN spec, of "[''s'']" ?d]
      post_file_appends_unless_present [OF h1 h2 h3 h4, of "''t''" ?e ?st0,
        THEN conjunct2, THEN conjunct1, THEN spec, of "[''t'']"]
      post_file_appends_unless_present [OF h1 h2 h3 h4, of "''s/t''" ?e ?st0, THEN conjunct1]
    by (simp add: id doc_ref_def)
qed

text \<open>
  Claim C5 says that different draws of the timestamp and the random number give an id
  different from the ids already in the subject. Only the first nine characters after
  \<^verbatim>\<open>0.\<close> of the random text are kept, and nothing separates them from the timestamp:
  two draws at the same millisecond whose random texts differ after the ninth character
  give two files with one id, and so do a timestamp with one digit less whose suffix
  starts with the missing digit.
\<close>

theorem new_file_id_collision_counterexample:
  "fst (post_file \<lparr>new_doc_id = ''d1'', now_millis = 1700000000000, random36 = ''0.4fzzzxjylsa''\<rparr> ''s''
          (Body_obj [(''name'', JStr ''b.txt''), (''content'', JStr ''y'')])
          (fst (post_file
                  \<lparr>new_doc_id = ''d1'', now_millis = 1700000000000, random36 = ''0.4fzzzxjylrx''\<rparr> ''s''
                  (Body_obj [(''name'', JStr ''a.txt''), (''content'', JStr ''x'')])
                  [([''s''], \<lparr>subject_id = ''s'', subject_name = JStr ''Anatomy'', files = []\<rparr>)])))
   = [([''s''], \<lparr>subject_id = ''s'', subject_name = JStr ''Anatomy'',
              files = [\<lparr>file_id = ''17000000000004fzzzxjyl'', file_name = JStr ''a.txt'',
                        file_content = JStr ''x''\<rparr>,
                       \<lparr>file_id = ''17000000000004fzzzxjyl'', file_name = JStr ''b.txt'',
                        file_content = JStr ''y''\<rparr>]\<rparr>)]
   \<and> ''0.4fzzzxjylrx'' \<noteq> ''0.4fzzzxjylsa''
   \<and> new_file_id \<lparr>new_doc_id = ''d1'', now_millis = 170000000000, random36 = ''0.29''\<rparr>
       = new_file_id \<lparr>new_doc_id = ''d1'', now_millis = 1700000000002, random36 = ''0.9''\<rparr>
   \<and> (170000000000 :: whole) \<noteq> 1700000000002
   \<and> ''0.29'' \<noteq> ''0.9''"
proof -
  have a: "new_file_id \<lparr>new_doc_id = ''d1'', now_millis = 1700000000000, random36 = ''0.4fzzzxjylrx''\<rparr>
          = ''17000000000004fzzzxjyl''"
    by (simp add: new_file_id_def substr_def to_string_def dec_int_def dec_nat.simps digit_char_def)
  have b: "new_file_id \<lparr>new_doc_id = ''d1'', now_millis = 1700000000000, random36 = ''0.4fzzzxjylsa''\<rparr>
          = ''17000000000004fzzzxjyl''"
    by (simp add: new_file_id_def substr_def to_string_def dec_int_def dec_nat.simps digit_char_def)
  have c: "new_file_id \<lparr>new_doc_id = ''d1'', now_millis = 170000000000, random36 = ''0.29''\<rparr>
          = ''17000000000029''"
    by (simp add: new_file_id_def substr_def to_string_def dec_int_def dec_nat.simps digit_char_def)
  have d: "new_file_id \<lparr>new_doc_id = ''d1'', now_millis = 1700000000002, random36 = ''0.9''\<rparr>
          = ''17000000000029''"
    by (simp add: new_file_id_def substr_def to_string_def dec_int_def dec_nat.simps digit_char_def)
  show ?thesis
    by (simp add: post_file_def arrayUnion_def Let_def doc_ref_def a b c d)
qed

text \<open>
  Claim C5, amended. Every file an add-file request returns with 201 has as its id the
  decimal text of the timestamp followed by at most nine characters of the random text
  (those after its first two), and this id is not empty. It differs from the id of each
  file of the subject that was generated from a timestamp with as many characters and
  from another pair of timestamp and nine-character suffix.
\<close>

theorem new_file_id_fresh:
  "(\<forall>newFile. snd (post_file e subjectId b st) = (201, File_json newFile) \<longrightarrow>
       file_id newFile = to_string (now_millis e) @ take 9 (drop 2 (random36 e))
     \<and> file_id newFile \<noteq> []
     \<and> (\<forall>path d f e'.
           doc_ref subjectId = Some path \<and> map_of st path = Some d \<and> f \<in> set (files d)
           \<and> file_id f = new_file_id e'
           \<and> length (to_string (now_millis e')) = length (to_string (now_millis e))
           \<and> (now_millis e', substr 2 9 (random36 e')) \<noteq> (now_millis e, substr 2 9 (random36 e))
           \<longrightarrow> file_id f \<noteq> file_id newFile))
   \<and> new_file_id e = to_string (now_millis e) @ take 9 (drop 2 (random36 e))
   \<and> new_file_id e \<noteq> []"
proof -
  have fmt: "new_file_id e = to_string (now_millis e) @ take 9 (drop 2 (random36 e))"
    by (simp add: new_file_id_def substr_def)
  have ne: "new_file_id e \<noteq> []"
    by (simp add: new_file_id_def to_string_nonempty)
  have diff: "new_file_id e' \<noteq> new_file_id e"
    if "length (to_string (now_millis e')) = length (to_string (now_millis e))"
      and "(now_millis e', substr 2 9 (random36 e')) \<noteq> (now_millis e, substr 2 9 (random36 e))"
    for e'
    using new_file_id_eq_iff [OF that(1)] that(2) by simp
  have produced: "file_id newFile = new_file_id e"
    if "snd (post_file e subjectId b st) = (201, File_json newFile)" for newFile
    using that
    by (auto simp: post_file_def Let_def split: option.splits if_splits)
  show ?thesis
  proof (intro conjI allI impI)
    fix newFile assume r: "snd (post_file e subjectId b st) = (201, File_json newFile)"
    from produced [OF r] fmt
    show "file_id newFile = to_string (now_millis e) @ take 9 (drop 2 (random36 e))" by simp
    from produced [OF r] ne show "file_id newFile \<noteq> []" by simp
  next
    fix newFile path d f e'
    assume r: "snd (post_file e subjectId b st) = (201, File_json newFile)"
      and h: "doc_ref subjectId = Some path \<and> map_of st path = Some d \<and> f \<in> set (files d)
           \<and> file_id f = new_file_id e'
           \<and> length (to_string (now_millis e')) = length (to_string (now_millis e))
           \<and> (now_millis e', substr 2 9 (random36 e')) \<noteq> (now_millis e, substr 2 9 (random36 e))"
    from h diff [of e'] have "file_id f \<noteq> new_file_id e" by simp
    with produced [OF r] show "file_id f \<noteq> file_id newFile" by simp
  next
    show "new_file_id e = to_string (now_millis e) @ take 9 (drop 2 (random36 e))" by (rule fmt)
    show "new_file_id e \<noteq> []" by (rule ne)
  qed
qed

theorem new_file_id_fresh_witness:
  "snd (post_file \<lparr>new_doc_id = ''d1'', now_millis = 1700000000001, random36 = ''0.4fzzzxjylrx''\<rparr> ''s''
          (Body_obj [(''name'', JStr ''b.txt''), (''content'', JStr ''y'')])
          [([''s''], \<lparr>subject_id = ''s'', subject_name = JStr ''Anatomy'',
                   files = [\<lparr>file_id = ''17000000000004fzzzxjyl'', file_name = JStr ''a.txt'',
                             file_content = JStr ''x''\<rparr>]\<rparr>)])
     = (201, File_json \<lparr>file_id = ''17000000000014fzzzxjyl'', file_name = JStr ''b.txt'',
                         file_content = JStr ''y''\<rparr>)
   \<and> ''17000000000014fzzzxjyl'' = ''1700000000001'' @ take 9 (drop 2 ''0.4fzzzxjylrx'')
   \<and> ''17000000000004fzzzxjyl'' \<noteq> ''17000000000014fzzzxjyl''"
proof -
  let ?e = "\<lparr>new_doc_id = ''d1'', now_millis = 1700000000001, random36 = ''0.4fzzzxjylrx''\<rparr>"
  let ?e' = "\<lparr>new_doc_id = ''d1'', now_millis = 1700000000000, random36 = ''0.4fzzzxjylrx''\<rparr>"
  let ?f = "\<lparr>file_id = ''17000000000004fzzzxjyl'', file_name = JStr ''a.txt'',
             file_content = JStr ''x''\<rparr>"
  let ?d = "\<lparr>subject_id = ''s'', subject_name = JStr ''Anatomy'', files = [?f]\<rparr>"
  let ?b = "Body_obj [(''name'', JStr ''b.txt''), (''content'', JStr ''y'')]"
  let ?nf = "\<lparr>file_id = ''17000000000014fzzzxjyl'', file_name = JStr ''b.txt'',
              file_content = JStr ''y''\<rparr>"
  have new: "new_file_id ?e = ''17000000000014fzzzxjyl''"
    by (simp add: new_file_id_def substr_def to_string_def dec_int_def dec_nat.simps digit_char_def)
  have old: "new_file_id ?e' = ''17000000000004fzzzxjyl''"
    by (simp add: new_file_id_def substr_def to_string_def dec_int_def dec_nat.simps digit_char_def)
  have len: "length (to_string (now_millis ?e')) = length (to_string (now_millis ?e))"
    by (simp add: to_string_def dec_int_def dec_nat.simps digit_char_def)
  have printed: "to_string (now_millis ?e) = ''1700000000001''"
    by (simp add: to_string_def dec_int_def dec_nat.simps digit_char_def)
  have r: "snd (post_file ?e ''s'' ?b [([''s''], ?d)]) = (201, File_json ?nf)"
    by (simp add: post_file_def Let_def doc_ref_def new)
  have h: "doc_ref ''s'' = Some [''s''] \<and> map_of [([''s''], ?d)] [''s''] = Some ?d
         \<and> ?f \<in> set (files ?d) \<and> file_id ?f = new_file_id ?e'
         \<and> length (to_string (now_millis ?e')) = length (to_string (now_millis ?e))
         \<and> (now_millis ?e', substr 2 9 (random36 ?e')) \<noteq> (now_millis ?e, substr 2 9 (random36 ?e))"
    using old len by (simp add: doc_ref_def)
  from new_file_id_fresh [of ?e "''s''" ?b "[([''s''], ?d)]", THEN conjunct1, THEN spec, of ?nf] r
  have c: "file_id ?nf = to_string (now_millis ?e) @ take 9 (drop 2 (random36 ?e))
     \<and> file_id ?nf \<noteq> []
     \<and> (\<forall>path d f e'.
           doc_ref ''s'' = Some path \<and> map_of [([''s''], ?d)] path = Some d \<and> f \<in> set (files d)
           \<and> file_id f = new_file_id e'
           \<and> length (to_string (now_millis e')) = length (to_string (now_millis ?e))
           \<and> (now_millis e', substr 2 9 (random36 e')) \<noteq> (now_millis ?e, substr 2 9 (random36 ?e))
           \<longrightarrow> file_id f \<noteq> file_id ?nf)"
    by blast
  from c have c1: "file_id ?nf = to_string (now_millis ?e) @ take 9 (drop 2 (random36 ?e))"
    by blast
  from c have "doc_ref ''s'' = Some [''s''] \<and> map_of [([''s''], ?d)] [''s''] = Some ?d
         \<and> ?f \<in> set (files ?d) \<and> file_id ?f = new_file_id ?e'
         \<and> length (to_string (now_millis ?e')) = length (to_string (now_millis ?e))
         \<and> (now_millis ?e', substr 2 9 (random36 ?e')) \<noteq> (now_millis ?e, substr 2 9 (random36 ?e))
         \<longrightarrow> file_id ?f \<noteq> file_id ?nf"
    by blast
  with h have c3: "file_id ?f \<noteq> file_id ?nf" by blast
  from r c1 c3 printed show ?thesis by simp
qed

section \<open>Writes stay in one document\<close>

lemma handle_frame:
  "Some k \<noteq> targeted e r \<Longrightarrow> map_of (fst (handle e r st)) k = map_of st k"
proof (cases r)
  case GET_subjects
  then show ?thesis by (simp add: get_subjects_def)
next
  case (POST_subjects b)
  assume "Some k \<noteq> targeted e r"
  with POST_subjects show ?thesis
    by (auto simp: post_subject_def falsy_def Let_def update_conv' split: option.splits json.splits)
next
  case (PUT_subject subjectId b)
  assume "Some k \<noteq> targeted e r"
  with PUT_subject show ?thesis
    by (auto simp: put_subject_def update_conv' split: option.splits)
next
  case (DELETE_subject subjectId)
  assume "Some k \<noteq> targeted e r"
  with DELETE_subject show ?thesis
    by (auto simp: delete_subject_def delete_conv' split: option.splits)
next
  case (POST_file subjectId b)
  assume "Some k \<noteq> targeted e r"
  with POST_file show ?thesis
    by (auto simp: post_file_def Let_def update_conv' split: option.splits)
next
  case (DELETE_file subjectId fileId)
  assume "Some k \<noteq> targeted e r"
  with DELETE_file show ?thesis
    by (auto simp: delete_file_def update_conv' split: option.splits)
qed

lemma handle_v2_frame:
  "Some k \<noteq> targeted_v2 r \<Longrightarrow> map_of (fst (handle_v2 r st)) k = map_of st k"
proof (cases r)
  case GET_subjects_v2
  assume "Some k \<noteq> targeted_v2 r"
  with GET_subjects_v2 show ?thesis
    by (simp add: get_subjects_v2_def seed_initialSubjects update_conv')
next
  case (POST_subjects_v2 b)
  assume "Some k \<noteq> targeted_v2 r"
  with POST_subjects_v2 show ?thesis
    by (auto simp: post_subject_v2_def update_conv' split: option.splits)
next
  case (PUT_subject_v2 subjectId b)
  assume "Some k \<noteq> targeted_v2 r"
  with PUT_subject_v2 show ?thesis
    by (auto simp: put_subject_v2_def update_conv' split: option.splits)
next
  case (DELETE_subject_v2 subjectId)
  assume "Some k \<noteq> targeted_v2 r"
  with DELETE_subject_v2 show ?thesis
    by (auto simp: delete_subject_v2_def delete_conv' split: option.splits)
qed

lemma handle_no_target: "targeted e r = None \<Longrightarrow> fst (handle e r st) = st"
  by (cases r)
     (auto simp: get_subjects_def put_subject_def delete_subject_def post_file_def
                 delete_file_def Let_def split: option.splits)

lemma handle_v2_no_target: "targeted_v2 r = None \<Longrightarrow> fst (handle_v2 r st) = st"
  by (cases r)
     (auto simp: post_subject_v2_def put_subject_v2_def delete_subject_v2_def
           split: option.splits)

text \<open>
  Claim C6. Whatever the request, in either variant, every document other than the one the
  handler builds a reference to (the one the path names, or the one the request creates)
  is after the request what it was before, and a request whose handler builds no
  reference leaves the whole store as it was; the listing of variant 1 writes nothing, and
  the listing of variant 2 writes nothing when the collection has a document.
\<close>

theorem writes_confined_to_targeted_document:
  "(Some k \<noteq> targeted e r \<longrightarrow> map_of (fst (handle e r st)) k = map_of st k)
   \<and> (Some k \<noteq> targeted_v2 r2 \<longrightarrow> map_of (fst (handle_v2 r2 st2)) k = map_of st2 k)
   \<and> (targeted e r = None \<longrightarrow> fst (handle e r st) = st)
   \<and> (targeted_v2 r2 = None \<longrightarrow> fst (handle_v2 r2 st2) = st2)
   \<and> fst (handle e GET_subjects st) = st
   \<and> (children st2 \<noteq> [] \<longrightarrow> fst (handle_v2 GET_subjects_v2 st2) = st2)"
  using handle_frame [of k e r st] handle_v2_frame [of k r2 st2]
    handle_no_target [of e r st] handle_v2_no_target [of r2 st2]
  by (simp add: get_subjects_def get_subjects_v2_def)

theorem writes_confined_to_targeted_document_witness:
  "map_of (fst (handle \<lparr>new_doc_id = ''d1'', now_millis = 0, random36 = ''0''\<rparr>
                  (DELETE_subject ''a/'')
                  [([''a''], \<lparr>subject_id = ''a'', subject_name = JStr ''Anatomy'', files = []\<rparr>),
                   ([''b''], \<lparr>subject_id = ''b'', subject_name = JStr ''Histology'', files = []\<rparr>)]))
      [''b'']
     = Some \<lparr>subject_id = ''b'', subject_name = JStr ''Histology'', files = []\<rparr>
   \<and> map_of (fst (handle_v2 (POST_subjects_v2 (Body_obj [(''id'', JNum 1), (''name'', JStr ''X'')]))
                  [([''1''], JObj [(''id'', JNum 1), (''name'', JStr ''Anatomy'')]),
                   ([''b''], JObj [(''id'', JStr ''b''), (''name'', JStr ''Histology'')])])) [''b'']
     = Some (JObj [(''id'', JStr ''b''), (''name'', JStr ''Histology'')])
   \<and> fst (handle \<lparr>new_doc_id = ''d1'', now_millis = 0, random36 = ''0''\<rparr>
             (DELETE_subject ''a/b'')
             [([''a''], \<lparr>subject_id = ''a'', subject_name = JStr ''Anatomy'', files = []\<rparr>)])
     = [([''a''], \<lparr>subject_id = ''a'', subject_name = JStr ''Anatomy'', files = []\<rparr>)]
   \<and> fst (handle_v2 (PUT_subject_v2 ''a/b'' (Body_obj [(''name'', JStr ''X'')]))
             [([''1''], JObj [(''id'', JNum 1), (''name'', JStr ''Anatomy'')])])
     = [([''1''], JObj [(''id'', JNum 1), (''name'', JStr ''Anatomy'')])]
   \<and> fst (handle_v2 GET_subjects_v2
             [([''1''], JObj [(''id'', JNum 1), (''name'', JStr ''Anatomy'')])])
     = [([''1''], JObj [(''id'', JNum 1), (''name'', JStr ''Anatomy'')])]"
  using writes_confined_to_targeted_document
    [of "[''b'']" "\<lparr>new_doc_id = ''d1'', now_millis = 0, random36 = ''0''\<rparr>"
        "DELETE_subject ''a/''"
        "[([''a''], \<lparr>subject_id = ''a'', subject_name = JStr ''Anatomy'', files = []\<rparr>),
          ([''b''], \<lparr>subject_id = ''b'', subject_name = JStr ''Histology'', files = []\<rparr>)]"
        "POST_subjects_v2 (Body_obj [(''id'', JNum 1), (''name'', JStr ''X'')])"
        "[([''1''], JObj [(''id'', JNum 1), (''name'', JStr ''Anatomy'')]),
          ([''b''], JObj [(''id'', JStr ''b''), (''name'', JStr ''Histology'')])]"]
    writes_confined_to_targeted_document
    [of "[''b'']" "\<lparr>new_doc_id = ''d1'', now_millis = 0, random36 = ''0''\<rparr>"
        "DELETE_subject ''a/b''"
        "[([''a''], \<lparr>subject_id = ''a'', subject_name = JStr ''Anatomy'', files = []\<rparr>)]"
        "PUT_subject_v2 ''a/b'' (Body_obj [(''name'', JStr ''X'')])"
        "[([''1''], JObj [(''id'', JNum 1), (''name'', JStr ''Anatomy'')])]"]
  by (simp add: js_String_opt_def to_string_1 doc_ref_def children_def)

end
